theory Spec2Isabelle
  imports Main "HOL-Library.Word"
begin

section \<open>Data model of comms\_class.c\<close>

text \<open>
  The file keeps a global, singly linked list of \<^verbatim>\<open>struct comms_class\<close> objects
  (\<^verbatim>\<open>class_head\<close>, linked through the \<^verbatim>\<open>next\<close> field of each object). The
  objects belong to their authors: registration stores a reference, so the objects live in
  an explicit store that maps addresses to objects.

  Pointers that may be \<^verbatim>\<open>NULL\<close> are options. A function pointer is the address of
  the handler's code (\<open>hid\<close>); what a handler does with a transaction is given by an
  environment of handlers, a parameter of the dispatcher. Every way in which the C code
  can leave defined behaviour is a value of \<open>fault\<close>.
\<close>

type_synonym u32 = "32 word"
type_synonym hid = nat
type_synonym cptr = nat

datatype fault =
    NullPointer   \<comment> \<open>dereference of \<^verbatim>\<open>NULL\<close>\<close>
  | BadPointer    \<comment> \<open>dereference of an address that holds no class object\<close>
  | OutOfBounds   \<comment> \<open>read past the end of a verb array that has no terminator\<close>

text \<open>
  \<^verbatim>\<open>struct comms_verb\<close>: the fields this file reads or writes. The field \<^verbatim>\<open>name\<close>
  is \<open>verb_name\<close> here, since the class has a field of the same name.
\<close>

record comms_verb =
  verb_name :: "string option"
  verb_number :: u32
  handler :: "hid option"

text \<open>
  \<^verbatim>\<open>struct comms_class\<close>. \<open>command_verbs\<close> is \<^verbatim>\<open>NULL\<close> or points to an array; the
  list holds the whole array, terminator and whatever follows it included. The field
  \<^verbatim>\<open>next\<close> is \<open>next_class\<close>.
\<close>

record comms_class =
  class_number :: u32
  name :: "string option"
  command_verbs :: "comms_verb list option"
  command_handler :: "hid option"
  next_class :: "cptr option"

text \<open>
  \<^verbatim>\<open>struct command_transaction\<close>: the routing key, and the rest of the structure
  (arguments, response and status areas) as \<open>payload\<close>.
\<close>

record 'p command_transaction =
  trans_class_number :: u32
  verb :: u32
  payload :: 'p

text \<open>The global state: the list head and the store of class objects.\<close>

record state =
  class_head :: "cptr option"
  heap :: "cptr \<Rightarrow> comms_class option"

text \<open>
  Modelled from the spec: \<^verbatim>\<open>errno.h\<close> is not part of the sources. The two status codes
  of the dispatcher, "invalid argument" and "bad message", with the values of the
  firmware's C library.
\<close>

definition EINVAL :: int where
  "EINVAL = 22"

definition EBADMSG :: int where
  "EBADMSG = 77"

section \<open>Verb-number auto-assignment\<close>

text \<open>
  The loop \<^verbatim>\<open>for (verb = command_verbs; verb->handler; ++verb)\<close> of
  \<^verbatim>\<open>comms_class_requires_verb_assignment\<close>, on the array from \<^verbatim>\<open>verb\<close> on.
\<close>

fun comms_class_requires_verb_assignment_loop :: "comms_verb list \<Rightarrow> fault + bool" where
  "comms_class_requires_verb_assignment_loop [] = Inl OutOfBounds"
| "comms_class_requires_verb_assignment_loop (v # vs) =
     (if handler v = None then Inr True
      else if verb_number v \<noteq> 0 then Inr False
      else comms_class_requires_verb_assignment_loop vs)"

definition comms_class_requires_verb_assignment :: "comms_class \<Rightarrow> fault + bool" where
  "comms_class_requires_verb_assignment c =
     (case command_verbs c of
        None \<Rightarrow> Inl NullPointer
      | Some vs \<Rightarrow> comms_class_requires_verb_assignment_loop vs)"

text \<open>
  The loop of \<^verbatim>\<open>comms_auto_assign_verb_numbers\<close>. The counter is an \<^verbatim>\<open>int\<close> whose
  value is stored into the unsigned 32-bit field \<^verbatim>\<open>verb_number\<close>. The first argument is
  the value the field receives, counted modulo \<open>2^32\<close>; the \<^verbatim>\<open>int\<close> itself stays in
  range for every table of fewer than \<open>2^31\<close> verbs.
\<close>

fun comms_auto_assign_verb_numbers_loop ::
  "u32 \<Rightarrow> comms_verb list \<Rightarrow> fault + comms_verb list" where
  "comms_auto_assign_verb_numbers_loop n [] = Inl OutOfBounds"
| "comms_auto_assign_verb_numbers_loop n (v # vs) =
     (if handler v = None then Inr (v # vs)
      else (case comms_auto_assign_verb_numbers_loop (n + 1) vs of
              Inl f \<Rightarrow> Inl f
            | Inr vs' \<Rightarrow> Inr (v\<lparr>verb_number := n\<rparr> # vs')))"

definition comms_auto_assign_verb_numbers :: "comms_class \<Rightarrow> fault + comms_class" where
  "comms_auto_assign_verb_numbers c =
     (case command_verbs c of
        None \<Rightarrow> Inl NullPointer
      | Some vs \<Rightarrow>
          (case comms_auto_assign_verb_numbers_loop 0 vs of
             Inl f \<Rightarrow> Inl f
           | Inr vs' \<Rightarrow> Inr (c\<lparr>command_verbs := Some vs'\<rparr>)))"

section \<open>Registry\<close>

text \<open>
  \<^verbatim>\<open>comms_register_class\<close>. The error message of the \<^verbatim>\<open>NULL\<close> guard goes to the
  log, which is not part of the state.
\<close>

definition comms_register_class :: "state \<Rightarrow> cptr option \<Rightarrow> fault + state" where
  "comms_register_class s comms_class =
     (case comms_class of
        None \<Rightarrow> Inr s
      | Some p \<Rightarrow>
          (case heap s p of
             None \<Rightarrow> Inl BadPointer
           | Some c \<Rightarrow>
               (case comms_class_requires_verb_assignment c of
                  Inl f \<Rightarrow> Inl f
                | Inr b \<Rightarrow>
                    (case (if b then comms_auto_assign_verb_numbers c else Inr c) of
                       Inl f \<Rightarrow> Inl f
                     | Inr c' \<Rightarrow>
                         Inr (s\<lparr>heap := (heap s)(p \<mapsto> c'\<lparr>next_class := class_head s\<rparr>),
                                class_head := Some p\<rparr>)))))"

text \<open>
  The loop of \<^verbatim>\<open>comms_get_class_by_number\<close>, from the class \<^verbatim>\<open>cls\<close> on. It follows
  \<^verbatim>\<open>next\<close> pointers and need not end when the list is cyclic: the result \<open>None\<close>
  is a loop that does not return.
\<close>

partial_function (option) comms_get_class_by_number_loop ::
  "(cptr \<Rightarrow> comms_class option) \<Rightarrow> u32 \<Rightarrow> cptr option \<Rightarrow> (fault + cptr option) option" where
  "comms_get_class_by_number_loop h n cls =
     (case cls of
        None \<Rightarrow> Some (Inr None)
      | Some p \<Rightarrow>
          (case h p of
             None \<Rightarrow> Some (Inl BadPointer)
           | Some c \<Rightarrow>
               if class_number c = n then Some (Inr (Some p))
               else comms_get_class_by_number_loop h n (next_class c)))"

definition comms_get_class_by_number :: "state \<Rightarrow> u32 \<Rightarrow> (fault + cptr option) option" where
  "comms_get_class_by_number s n = comms_get_class_by_number_loop (heap s) n (class_head s)"

text \<open>\<^verbatim>\<open>comms_get_class_name\<close>; a \<^verbatim>\<open>const char *\<close> is a string option.\<close>

definition comms_get_class_name ::
  "state \<Rightarrow> u32 \<Rightarrow> string option \<Rightarrow> (fault + string option) option" where
  "comms_get_class_name s n default_string =
     (case comms_get_class_by_number s n of
        None \<Rightarrow> None
      | Some (Inl f) \<Rightarrow> Some (Inl f)
      | Some (Inr None) \<Rightarrow> Some (Inr default_string)
      | Some (Inr (Some p)) \<Rightarrow>
          (case heap s p of
             None \<Rightarrow> Some (Inl BadPointer)
           | Some c \<Rightarrow>
               (case name c of
                  None \<Rightarrow> Some (Inr default_string)
                | Some nm \<Rightarrow> Some (Inr (Some nm)))))"

section \<open>Dispatch\<close>

text \<open>
  The scan \<^verbatim>\<open>for (verb = command_verbs; verb->handler; ++verb)\<close> for the first verb
  with the given number, shared by \<^verbatim>\<open>comms_backend_submit_command\<close> and
  \<^verbatim>\<open>comms_get_object_for_verb\<close>. It returns the verb found and its handler, which is
  not \<^verbatim>\<open>NULL\<close>.
\<close>

fun find_verb :: "u32 \<Rightarrow> comms_verb list \<Rightarrow> fault + (comms_verb \<times> hid) option" where
  "find_verb n [] = Inl OutOfBounds"
| "find_verb n (v # vs) =
     (case handler v of
        None \<Rightarrow> Inr None
      | Some h \<Rightarrow> if verb_number v = n then Inr (Some (v, h)) else find_verb n vs)"

text \<open>
  What a call of the dispatcher has done: the handlers it invoked, in order and with the
  call site (through a verb's \<^verbatim>\<open>handler\<close>, or through the class's
  \<^verbatim>\<open>command_handler\<close>), the transaction as the handlers left it, and the return code.
\<close>

datatype call = VerbCall hid | ClassCall hid

record 'p outcome =
  rc :: int
  transaction :: "'p command_transaction"
  calls :: "call list"

text \<open>
  \<^verbatim>\<open>comms_backend_submit_command\<close> from the point where the handling class is known.
  The parameter \<^verbatim>\<open>trans\<close> is \<open>tr\<close>.
  \<open>handlers\<close> gives the code behind each handler address: a handler takes the transaction
  and returns its code and the transaction as it leaves it. \<open>comms_transaction_okay\<close> is
  the predicate of \<^verbatim>\<open>comms_backend.h\<close>, which is not part of the sources. The
  backend is only named in the warnings, which go to the log.
\<close>

definition submit_to_class ::
  "(hid \<Rightarrow> 'p command_transaction \<Rightarrow> int \<times> 'p command_transaction) \<Rightarrow>
   ('p command_transaction \<Rightarrow> bool) \<Rightarrow> comms_class \<Rightarrow> 'p command_transaction \<Rightarrow>
   fault + 'p outcome" where
  "submit_to_class handlers comms_transaction_okay handling_class tr =
     (if command_verbs handling_class = None \<and> command_handler handling_class = None
      then Inr \<lparr>rc = EINVAL, transaction = tr, calls = []\<rparr>
      else
        (case command_verbs handling_class of
           None \<Rightarrow> Inl NullPointer
         | Some vs \<Rightarrow>
             (case find_verb (verb tr) vs of
                Inl f \<Rightarrow> Inl f
              | Inr m \<Rightarrow>
                  (let (found_handler, r, t, cs) =
                         (case m of
                            None \<Rightarrow> (False, 0, tr, [])
                          | Some (v, h) \<Rightarrow>
                              (True, fst (handlers h tr), snd (handlers h tr),
                               [VerbCall h]));
                       (found_handler, r, t, cs) =
                         (case command_handler handling_class of
                            None \<Rightarrow> (found_handler, r, t, cs)
                          | Some ch \<Rightarrow>
                              if \<not> found_handler
                              then (True, fst (handlers ch t), snd (handlers ch t),
                                    cs @ [ClassCall ch])
                              else (found_handler, r, t, cs))
                   in if \<not> found_handler
                      then Inr \<lparr>rc = EINVAL, transaction = t, calls = cs\<rparr>
                      else Inr \<lparr>rc = (if r = 0 \<and> \<not> comms_transaction_okay t
                                      then EBADMSG else r),
                                transaction = t, calls = cs\<rparr>))))"

definition comms_backend_submit_command ::
  "(hid \<Rightarrow> 'p command_transaction \<Rightarrow> int \<times> 'p command_transaction) \<Rightarrow>
   ('p command_transaction \<Rightarrow> bool) \<Rightarrow> state \<Rightarrow> 'p command_transaction \<Rightarrow>
   (fault + 'p outcome) option" where
  "comms_backend_submit_command handlers comms_transaction_okay s tr =
     (case comms_get_class_by_number s (trans_class_number tr) of
        None \<Rightarrow> None
      | Some (Inl f) \<Rightarrow> Some (Inl f)
      | Some (Inr None) \<Rightarrow> Some (Inr \<lparr>rc = EINVAL, transaction = tr, calls = []\<rparr>)
      | Some (Inr (Some p)) \<Rightarrow>
          (case heap s p of
             None \<Rightarrow> Some (Inl BadPointer)
           | Some handling_class \<Rightarrow>
               Some (submit_to_class handlers comms_transaction_okay handling_class tr)))"

section \<open>Introspection\<close>

text \<open>\<^verbatim>\<open>comms_get_object_for_verb\<close>; the verb object is returned by value.\<close>

definition comms_get_object_for_verb ::
  "state \<Rightarrow> u32 \<Rightarrow> u32 \<Rightarrow> (fault + comms_verb option) option" where
  "comms_get_object_for_verb s class_no verb_no =
     (case comms_get_class_by_number s class_no of
        None \<Rightarrow> None
      | Some (Inl f) \<Rightarrow> Some (Inl f)
      | Some (Inr None) \<Rightarrow> Some (Inr None)
      | Some (Inr (Some p)) \<Rightarrow>
          (case heap s p of
             None \<Rightarrow> Some (Inl BadPointer)
           | Some handling_class \<Rightarrow>
               (case command_verbs handling_class of
                  None \<Rightarrow> Some (Inr None)
                | Some vs \<Rightarrow>
                    (case find_verb verb_no vs of
                       Inl f \<Rightarrow> Some (Inl f)
                     | Inr m \<Rightarrow> Some (Inr (map_option fst m))))))"

text \<open>
  \<^verbatim>\<open>comms_get_handler_name\<close>. Both lookups are made first; when no verb object is
  found the code reads \<^verbatim>\<open>handling_class->command_handler\<close> without a test of
  \<^verbatim>\<open>handling_class\<close>.
\<close>

definition comms_get_handler_name ::
  "state \<Rightarrow> u32 \<Rightarrow> u32 \<Rightarrow> string option \<Rightarrow> string option \<Rightarrow>
   (fault + string option) option" where
  "comms_get_handler_name s class_no verb_no class_handler_string default_string =
     (case comms_get_object_for_verb s class_no verb_no of
        None \<Rightarrow> None
      | Some (Inl f) \<Rightarrow> Some (Inl f)
      | Some (Inr vb) \<Rightarrow>
          (case comms_get_class_by_number s class_no of
             None \<Rightarrow> None
           | Some (Inl f) \<Rightarrow> Some (Inl f)
           | Some (Inr handling_class) \<Rightarrow>
               (case vb of
                  Some v \<Rightarrow>
                    (case verb_name v of
                       Some nm \<Rightarrow> Some (Inr (Some nm))
                     | None \<Rightarrow> Some (Inr default_string))
                | None \<Rightarrow>
                    (case handling_class of
                       None \<Rightarrow> Some (Inl NullPointer)
                     | Some p \<Rightarrow>
                         (case heap s p of
                            None \<Rightarrow> Some (Inl BadPointer)
                          | Some c \<Rightarrow>
                              (case command_handler c of
                                 Some ch \<Rightarrow> Some (Inr class_handler_string)
                               | None \<Rightarrow> Some (Inr default_string)))))))"


section \<open>Notions used to state the properties\<close>

text \<open>
  A boot sequence: \<^verbatim>\<open>comms_register_class\<close> called on each class reference of a list,
  in order, stopping at the first fault.
\<close>

fun comms_register_classes :: "state \<Rightarrow> cptr list \<Rightarrow> fault + state" where
  "comms_register_classes s [] = Inr s"
| "comms_register_classes s (p # ps) =
     (case comms_register_class s (Some p) of
        Inl f \<Rightarrow> Inl f
      | Inr s' \<Rightarrow> comms_register_classes s' ps)"

text \<open>
  The linked list that starts at \<open>x\<close> holds exactly the class objects at the addresses
  \<open>ps\<close>, in this order, and ends with \<^verbatim>\<open>NULL\<close>.
\<close>

fun class_list :: "(cptr \<Rightarrow> comms_class option) \<Rightarrow> cptr option \<Rightarrow> cptr list \<Rightarrow> bool" where
  "class_list h x [] = (x = None)"
| "class_list h x (p # ps) =
     (x = Some p \<and> (case h p of None \<Rightarrow> False | Some c \<Rightarrow> class_list h (next_class c) ps))"

text \<open>The handler address behind a recorded call.\<close>

fun call_handler :: "call \<Rightarrow> hid" where
  "call_handler (VerbCall h) = h"
| "call_handler (ClassCall h) = h"

section \<open>The loops\<close>

lemma get_class_loop_None:
  "comms_get_class_by_number_loop h n None = Some (Inr None)"
  by (simp add: comms_get_class_by_number_loop.simps)

lemma get_class_loop_Some:
  "comms_get_class_by_number_loop h n (Some p) =
     (case h p of
        None \<Rightarrow> Some (Inl BadPointer)
      | Some c \<Rightarrow>
          if class_number c = n then Some (Inr (Some p))
          else comms_get_class_by_number_loop h n (next_class c))"
  by (subst comms_get_class_by_number_loop.simps) simp

lemma requires_loop_all_zero:
  "\<forall>v\<in>set es. handler v \<noteq> None \<and> verb_number v = 0 \<Longrightarrow> handler t = None \<Longrightarrow>
   comms_class_requires_verb_assignment_loop (es @ t # rest) = Inr True"
  by (induction es) auto

lemma requires_loop_nonzero:
  "\<forall>e\<in>set es. handler e \<noteq> None \<Longrightarrow> handler v \<noteq> None \<Longrightarrow> verb_number v \<noteq> 0 \<Longrightarrow>
   comms_class_requires_verb_assignment_loop (es @ v # rest) = Inr False"
  by (induction es) auto

lemma requires_loop_terminated:
  "\<exists>v\<in>set vs. handler v = None \<Longrightarrow>
   \<exists>b. comms_class_requires_verb_assignment_loop vs = Inr b"
  by (induction vs) auto

lemma assign_loop_numbers:
  "\<forall>v\<in>set es. handler v \<noteq> None \<Longrightarrow> handler t = None \<Longrightarrow>
   comms_auto_assign_verb_numbers_loop (of_nat m) (es @ t # rest) =
     Inr (map (\<lambda>(i, v). v\<lparr>verb_number := of_nat i\<rparr>) (enumerate m es) @ t # rest)"
proof (induction es arbitrary: m)
  case Nil
  then show ?case by simp
next
  case (Cons e es)
  have "(of_nat m :: u32) + 1 = of_nat (Suc m)" by simp
  with Cons show ?case by (auto simp del: of_nat_Suc)
qed

lemma assign_loop_terminated:
  "\<exists>v\<in>set vs. handler v = None \<Longrightarrow>
   \<exists>vs'. comms_auto_assign_verb_numbers_loop n vs = Inr vs'"
proof (induction vs arbitrary: n)
  case Nil
  then show ?case by simp
next
  case (Cons v vs)
  show ?case
  proof (cases "handler v = None")
    case True
    then show ?thesis by simp
  next
    case False
    with Cons.prems have "\<exists>v\<in>set vs. handler v = None" by auto
    then obtain vs' where "comms_auto_assign_verb_numbers_loop (n + 1) vs = Inr vs'"
      using Cons.IH by blast
    with False show ?thesis by simp
  qed
qed

lemma find_verb_match:
  "\<forall>e\<in>set es. handler e \<noteq> None \<and> verb_number e \<noteq> n \<Longrightarrow> handler v = Some h \<Longrightarrow>
   verb_number v = n \<Longrightarrow> find_verb n (es @ v # rest) = Inr (Some (v, h))"
  by (induction es) auto

lemma find_verb_no_match:
  "\<forall>e\<in>set es. handler e \<noteq> None \<and> verb_number e \<noteq> n \<Longrightarrow> handler t = None \<Longrightarrow>
   find_verb n (es @ t # rest) = Inr None"
  by (induction es) auto

section \<open>The registry as a list\<close>

lemma class_list_upd:
  "p \<notin> set qs \<Longrightarrow> class_list (h(p := y)) x qs = class_list h x qs"
  by (induction qs arbitrary: x) (auto split: option.splits)

lemma get_class_loop_class_list:
  "class_list h x qs \<Longrightarrow>
   comms_get_class_by_number_loop h n x =
     Some (Inr (find (\<lambda>p. map_option class_number (h p) = Some n) qs))"
proof (induction qs arbitrary: x)
  case Nil
  then show ?case by (simp add: get_class_loop_None)
next
  case (Cons q qs)
  then show ?case
    by (auto simp: get_class_loop_Some split: option.splits)
qed

lemma register_terminated:
  assumes "heap s p = Some c" and "command_verbs c = Some vs"
    and "\<exists>v\<in>set vs. handler v = None"
  shows "\<exists>c'. class_number c' = class_number c \<and>
           comms_register_class s (Some p) =
             Inr (s\<lparr>heap := (heap s)(p \<mapsto> c'\<lparr>next_class := class_head s\<rparr>),
                    class_head := Some p\<rparr>)"
proof -
  obtain b where b: "comms_class_requires_verb_assignment c = Inr b"
    using assms requires_loop_terminated
    by (auto simp: comms_class_requires_verb_assignment_def)
  show ?thesis
  proof (cases b)
    case True
    obtain vs' where "comms_auto_assign_verb_numbers_loop 0 vs = Inr vs'"
      using assms(3) assign_loop_terminated by blast
    then have "comms_auto_assign_verb_numbers c = Inr (c\<lparr>command_verbs := Some vs'\<rparr>)"
      using assms(2) by (simp add: comms_auto_assign_verb_numbers_def)
    with assms(1) b True
    have "comms_register_class s (Some p) =
            Inr (s\<lparr>heap := (heap s)(p \<mapsto>
                       (c\<lparr>command_verbs := Some vs'\<rparr>)\<lparr>next_class := class_head s\<rparr>),
                   class_head := Some p\<rparr>)"
      by (simp add: comms_register_class_def)
    moreover have "class_number (c\<lparr>command_verbs := Some vs'\<rparr>) = class_number c"
      by simp
    ultimately show ?thesis by blast
  next
    case False
    with assms(1) b
    have "comms_register_class s (Some p) =
            Inr (s\<lparr>heap := (heap s)(p \<mapsto> c\<lparr>next_class := class_head s\<rparr>),
                   class_head := Some p\<rparr>)"
      by (simp add: comms_register_class_def)
    then show ?thesis by blast
  qed
qed

text \<open>
  Registering classes that are not yet in the list, each once, puts them in front of the
  list, the last one first, and changes no class number.
\<close>

lemma register_classes_list:
  assumes "class_list (heap s) (class_head s) qs"
    and "distinct ps" and "set ps \<inter> set qs = {}"
    and "\<forall>p\<in>set ps. \<exists>c vs. heap s p = Some c \<and> command_verbs c = Some vs \<and>
            (\<exists>v\<in>set vs. handler v = None)"
  shows "\<exists>s'. comms_register_classes s ps = Inr s' \<and>
           class_list (heap s') (class_head s') (rev ps @ qs) \<and>
           (\<forall>q. map_option class_number (heap s' q) = map_option class_number (heap s q))"
  using assms
proof (induction ps arbitrary: s qs)
  case Nil
  then show ?case by simp
next
  case (Cons p ps)
  from Cons.prems(4) obtain c vs where c: "heap s p = Some c" "command_verbs c = Some vs"
    "\<exists>v\<in>set vs. handler v = None" by auto
  then obtain c' where c': "class_number c' = class_number c"
    and reg: "comms_register_class s (Some p) =
             Inr (s\<lparr>heap := (heap s)(p \<mapsto> c'\<lparr>next_class := class_head s\<rparr>),
                    class_head := Some p\<rparr>)"
    using register_terminated by blast
  define s1 where "s1 = s\<lparr>heap := (heap s)(p \<mapsto> c'\<lparr>next_class := class_head s\<rparr>),
                    class_head := Some p\<rparr>"
  from Cons.prems(3) have pq: "p \<notin> set qs" by auto
  have l1: "class_list (heap s1) (class_head s1) (p # qs)"
    using Cons.prems(1) pq by (simp add: s1_def class_list_upd)
  have d1: "distinct ps" "set ps \<inter> set (p # qs) = {}"
    using Cons.prems(2,3) by auto
  have w1: "\<forall>q\<in>set ps. \<exists>c vs. heap s1 q = Some c \<and> command_verbs c = Some vs \<and>
            (\<exists>v\<in>set vs. handler v = None)"
    using Cons.prems(2,4) by (auto simp: s1_def)
  from Cons.IH [OF l1 d1 w1] obtain s' where s': "comms_register_classes s1 ps = Inr s'"
    "class_list (heap s') (class_head s') (rev ps @ p # qs)"
    "\<forall>q. map_option class_number (heap s' q) = map_option class_number (heap s1 q)"
    by blast
  have "\<forall>q. map_option class_number (heap s1 q) = map_option class_number (heap s q)"
    using c c' by (simp add: s1_def)
  with s' reg show ?case
    by (simp add: s1_def)
qed

text \<open>
  The list is only as good as its links. A class object that is linked to itself is never
  left by the loop of the lookup: a search for another number does not return.
\<close>

lemma get_class_loop_cycle:
  assumes "h p = Some c" and "next_class c = Some p" and "class_number c \<noteq> n"
  shows "comms_get_class_by_number_loop h n (Some p) = None"
proof (rule ccontr)
  assume "comms_get_class_by_number_loop h n (Some p) \<noteq> None"
  then obtain y where y: "comms_get_class_by_number_loop h n (Some p) = Some y"
    by auto
  have "\<not> (h = h \<and> n = n \<and> Some p = Some p)"
  proof (rule comms_get_class_by_number_loop.raw_induct
      [where P = "\<lambda>h' n' cls y'. \<not> (h' = h \<and> n' = n \<and> cls = Some p)", OF _ y])
    fix f h' n' cls y'
    assume ih: "\<And>h' n' cls y'. f h' n' cls = Some y' \<Longrightarrow> \<not> (h' = h \<and> n' = n \<and> cls = Some p)"
      and body: "(case cls of
            None \<Rightarrow> Some (Inr None)
          | Some p \<Rightarrow>
              (case h' p of
                 None \<Rightarrow> Some (Inl BadPointer)
               | Some c \<Rightarrow>
                   if class_number c = n' then Some (Inr (Some p))
                   else f h' n' (next_class c))) = Some y'"
    show "\<not> (h' = h \<and> n' = n \<and> cls = Some p)"
    proof
      assume "h' = h \<and> n' = n \<and> cls = Some p"
      with body assms have "f h n (Some p) = Some y'" by simp
      from ih [OF this] show False by simp
    qed
  qed
  then show False by simp
qed

section \<open>Registration\<close>

text \<open>
  C10. Registering a null class reference returns without effect: the state after the call,
  list head and every class object with its verb numbers, is the state before it.
\<close>

theorem register_null_no_effect:
  "comms_register_class s None = Inr s"
  by (simp add: comms_register_class_def)

text \<open>
  C3. A registered class has a verb table: \<open>k\<close> entries \<open>es\<close> with a handler, the
  terminator \<open>t\<close>, and whatever follows it. When all \<open>k\<close> entries declare number 0,
  registration succeeds, gives entry \<open>i\<close> the number \<open>i\<close> and changes nothing else
  of the table, and links the class in front of the list. The numbers are 32-bit values;
  read as naturals they are 0, 1, ..., k-1, for every table of at most \<open>2^32\<close> verbs.
\<close>

theorem register_auto_assigns:
  assumes "heap s p = Some c"
    and "command_verbs c = Some (es @ t # rest)"
    and "\<forall>v\<in>set es. handler v \<noteq> None \<and> verb_number v = 0"
    and "handler t = None"
  shows "comms_register_class s (Some p) =
           Inr (s\<lparr>heap := (heap s)(p \<mapsto>
                      c\<lparr>command_verbs :=
                          Some (map (\<lambda>(i, v). v\<lparr>verb_number := of_nat i\<rparr>) (enumerate 0 es)
                                @ t # rest),
                        next_class := class_head s\<rparr>),
                  class_head := Some p\<rparr>)
         \<and> (length es \<le> 2 ^ 32 \<longrightarrow>
              map (\<lambda>v. unat (verb_number v))
                (map (\<lambda>(i, v). v\<lparr>verb_number := of_nat i\<rparr>) (enumerate 0 es))
                = [0..<length es])"
proof -
  have req: "comms_class_requires_verb_assignment c = Inr True"
    using assms by (simp add: comms_class_requires_verb_assignment_def requires_loop_all_zero)
  have "comms_auto_assign_verb_numbers_loop (of_nat 0) (es @ t # rest) =
          Inr (map (\<lambda>(i, v). v\<lparr>verb_number := of_nat i\<rparr>) (enumerate 0 es) @ t # rest)"
    using assms by (intro assign_loop_numbers) auto
  then have asg: "comms_auto_assign_verb_numbers c =
      Inr (c\<lparr>command_verbs :=
              Some (map (\<lambda>(i, v). v\<lparr>verb_number := of_nat i\<rparr>) (enumerate 0 es) @ t # rest)\<rparr>)"
    using assms by (simp add: comms_auto_assign_verb_numbers_def)
  have reg: "comms_register_class s (Some p) =
           Inr (s\<lparr>heap := (heap s)(p \<mapsto>
                      c\<lparr>command_verbs :=
                          Some (map (\<lambda>(i, v). v\<lparr>verb_number := of_nat i\<rparr>) (enumerate 0 es)
                                @ t # rest),
                        next_class := class_head s\<rparr>),
                  class_head := Some p\<rparr>)"
    using assms(1) req asg by (simp add: comms_register_class_def)
  have num: "map (\<lambda>v. unat (verb_number v))
                (map (\<lambda>(i, v). v\<lparr>verb_number := of_nat i\<rparr>) (enumerate 0 es))
                = [0..<length es]" if le: "length es \<le> 2 ^ 32"
  proof (rule nth_equalityI)
    show "length (map (\<lambda>v. unat (verb_number v))
                (map (\<lambda>(i, v). v\<lparr>verb_number := of_nat i\<rparr>) (enumerate 0 es)))
          = length [0..<length es]"
      by simp
  next
    fix i
    assume "i < length (map (\<lambda>v. unat (verb_number v))
                (map (\<lambda>(i, v). v\<lparr>verb_number := of_nat i\<rparr>) (enumerate 0 es)))"
    then have i: "i < length es" by simp
    with le have "i < 2 ^ 32" by simp
    then have "unat (of_nat i :: u32) = i"
      by (simp add: unat_of_nat)
    with i show "map (\<lambda>v. unat (verb_number v))
                (map (\<lambda>(i, v). v\<lparr>verb_number := of_nat i\<rparr>) (enumerate 0 es)) ! i
              = [0..<length es] ! i"
      by (simp add: nth_enumerate_eq)
  qed
  from reg num show ?thesis by blast
qed

theorem register_auto_assigns_witness:
  "comms_register_class
     \<lparr>class_head = None,
      heap = [1 \<mapsto> \<lparr>class_number = 5, name = Some ''gpio'',
                    command_verbs = Some
                      [\<lparr>verb_name = Some ''A'', verb_number = 0, handler = Some 10\<rparr>,
                       \<lparr>verb_name = Some ''B'', verb_number = 0, handler = Some 11\<rparr>,
                       \<lparr>verb_name = Some ''C'', verb_number = 0, handler = Some 12\<rparr>,
                       \<lparr>verb_name = None, verb_number = 0, handler = None\<rparr>],
                    command_handler = None, next_class = None\<rparr>]\<rparr>
     (Some 1)
   = Inr \<lparr>class_head = Some 1,
          heap = [1 \<mapsto> \<lparr>class_number = 5, name = Some ''gpio'',
                    command_verbs = Some
                      [\<lparr>verb_name = Some ''A'', verb_number = 0, handler = Some 10\<rparr>,
                       \<lparr>verb_name = Some ''B'', verb_number = 1, handler = Some 11\<rparr>,
                       \<lparr>verb_name = Some ''C'', verb_number = 2, handler = Some 12\<rparr>,
                       \<lparr>verb_name = None, verb_number = 0, handler = None\<rparr>],
                    command_handler = None, next_class = None\<rparr>]\<rparr>
   \<and> map (\<lambda>v. unat (verb_number v))
       (map (\<lambda>(i, v). v\<lparr>verb_number := of_nat i\<rparr>)
          (enumerate 0
            [\<lparr>verb_name = Some ''A'', verb_number = 0, handler = Some 10\<rparr>,
             \<lparr>verb_name = Some ''B'', verb_number = 0, handler = Some 11\<rparr>,
             \<lparr>verb_name = Some ''C'', verb_number = 0, handler = Some 12\<rparr>]))
     = [0, 1, 2]"
  using register_auto_assigns
    [of "\<lparr>class_head = None,
      heap = [1 \<mapsto> \<lparr>class_number = 5, name = Some ''gpio'',
                    command_verbs = Some
                      [\<lparr>verb_name = Some ''A'', verb_number = 0, handler = Some 10\<rparr>,
                       \<lparr>verb_name = Some ''B'', verb_number = 0, handler = Some 11\<rparr>,
                       \<lparr>verb_name = Some ''C'', verb_number = 0, handler = Some 12\<rparr>,
                       \<lparr>verb_name = None, verb_number = 0, handler = None\<rparr>],
                    command_handler = None, next_class = None\<rparr>]\<rparr>"
        1
        "\<lparr>class_number = 5, name = Some ''gpio'',
                    command_verbs = Some
                      [\<lparr>verb_name = Some ''A'', verb_number = 0, handler = Some 10\<rparr>,
                       \<lparr>verb_name = Some ''B'', verb_number = 0, handler = Some 11\<rparr>,
                       \<lparr>verb_name = Some ''C'', verb_number = 0, handler = Some 12\<rparr>,
                       \<lparr>verb_name = None, verb_number = 0, handler = None\<rparr>],
                    command_handler = None, next_class = None\<rparr>"
        "[\<lparr>verb_name = Some ''A'', verb_number = 0, handler = Some 10\<rparr>,
          \<lparr>verb_name = Some ''B'', verb_number = 0, handler = Some 11\<rparr>,
          \<lparr>verb_name = Some ''C'', verb_number = 0, handler = Some 12\<rparr>]"
        "\<lparr>verb_name = None, verb_number = 0, handler = None\<rparr>"
        "[]"]
  by (simp add: enumerate_eq_zip upt_rec)

text \<open>
  C4. When a verb of the table (an entry \<open>v\<close> with a handler, before any terminator)
  declares a number other than 0, registration succeeds and only sets the link of the
  class: every verb keeps its number, the zeros included.
\<close>

theorem register_keeps_explicit:
  assumes "heap s p = Some c"
    and "command_verbs c = Some (es @ v # rest)"
    and "\<forall>e\<in>set es. handler e \<noteq> None"
    and "handler v \<noteq> None"
    and "verb_number v \<noteq> 0"
  shows "comms_register_class s (Some p) =
           Inr (s\<lparr>heap := (heap s)(p \<mapsto> c\<lparr>next_class := class_head s\<rparr>),
                  class_head := Some p\<rparr>)"
proof -
  have "comms_class_requires_verb_assignment c = Inr False"
    using assms by (simp add: comms_class_requires_verb_assignment_def requires_loop_nonzero)
  with assms(1) show ?thesis
    by (simp add: comms_register_class_def)
qed

theorem register_keeps_explicit_witness:
  "comms_register_class
     \<lparr>class_head = Some 4,
      heap = [2 \<mapsto> \<lparr>class_number = 7, name = None,
                    command_verbs = Some
                      [\<lparr>verb_name = Some ''Z'', verb_number = 0, handler = Some 20\<rparr>,
                       \<lparr>verb_name = Some ''X'', verb_number = 3, handler = Some 21\<rparr>,
                       \<lparr>verb_name = Some ''Y'', verb_number = 0, handler = Some 22\<rparr>,
                       \<lparr>verb_name = None, verb_number = 0, handler = None\<rparr>],
                    command_handler = Some 30, next_class = None\<rparr>]\<rparr>
     (Some 2)
   = Inr \<lparr>class_head = Some 2,
          heap = [2 \<mapsto> \<lparr>class_number = 7, name = None,
                    command_verbs = Some
                      [\<lparr>verb_name = Some ''Z'', verb_number = 0, handler = Some 20\<rparr>,
                       \<lparr>verb_name = Some ''X'', verb_number = 3, handler = Some 21\<rparr>,
                       \<lparr>verb_name = Some ''Y'', verb_number = 0, handler = Some 22\<rparr>,
                       \<lparr>verb_name = None, verb_number = 0, handler = None\<rparr>],
                    command_handler = Some 30, next_class = Some 4\<rparr>]\<rparr>"
  using register_keeps_explicit
    [of "\<lparr>class_head = Some 4,
      heap = [2 \<mapsto> \<lparr>class_number = 7, name = None,
                    command_verbs = Some
                      [\<lparr>verb_name = Some ''Z'', verb_number = 0, handler = Some 20\<rparr>,
                       \<lparr>verb_name = Some ''X'', verb_number = 3, handler = Some 21\<rparr>,
                       \<lparr>verb_name = Some ''Y'', verb_number = 0, handler = Some 22\<rparr>,
                       \<lparr>verb_name = None, verb_number = 0, handler = None\<rparr>],
                    command_handler = Some 30, next_class = None\<rparr>]\<rparr>"
        2
        "\<lparr>class_number = 7, name = None,
                    command_verbs = Some
                      [\<lparr>verb_name = Some ''Z'', verb_number = 0, handler = Some 20\<rparr>,
                       \<lparr>verb_name = Some ''X'', verb_number = 3, handler = Some 21\<rparr>,
                       \<lparr>verb_name = Some ''Y'', verb_number = 0, handler = Some 22\<rparr>,
                       \<lparr>verb_name = None, verb_number = 0, handler = None\<rparr>],
                    command_handler = Some 30, next_class = None\<rparr>"
        "[\<lparr>verb_name = Some ''Z'', verb_number = 0, handler = Some 20\<rparr>]"
        "\<lparr>verb_name = Some ''X'', verb_number = 3, handler = Some 21\<rparr>"
        "[\<lparr>verb_name = Some ''Y'', verb_number = 0, handler = Some 22\<rparr>,
          \<lparr>verb_name = None, verb_number = 0, handler = None\<rparr>]"]
  by simp


section \<open>Lookup\<close>

text \<open>
  C5. \<^verbatim>\<open>comms_register_class\<close> has no test for a class object that is already in the
  list: registering one object twice links it to itself (or to a class registered after
  it), and on the cyclic list a lookup that passes the object does not return. The lookup
  property therefore holds for boot sequences that register every class object at most once.
  After such a sequence has registered the classes at the distinct addresses \<open>ps\<close>,
  each with a terminated verb table, on the empty registry,
  \<^verbatim>\<open>comms_get_class_by_number\<close> returns: it yields the class registered last among
  those that bear the number, and \<^verbatim>\<open>NULL\<close> when no registered class bears it.
\<close>

theorem lookup_most_recent:
  assumes "distinct ps"
    and "\<forall>p\<in>set ps. \<exists>c vs. h p = Some c \<and> command_verbs c = Some vs \<and>
            (\<exists>v\<in>set vs. handler v = None)"
  shows "\<exists>s'. comms_register_classes \<lparr>class_head = None, heap = h\<rparr> ps = Inr s' \<and>
           comms_get_class_by_number s' n =
             Some (Inr (find (\<lambda>p. map_option class_number (h p) = Some n) (rev ps)))"
proof -
  have "class_list (heap \<lparr>class_head = None, heap = h\<rparr>)
          (class_head \<lparr>class_head = None, heap = h\<rparr>) []"
    by simp
  from register_classes_list [OF this assms(1)] assms(2)
  obtain s' where s': "comms_register_classes \<lparr>class_head = None, heap = h\<rparr> ps = Inr s'"
    "class_list (heap s') (class_head s') (rev ps)"
    "\<forall>q. map_option class_number (heap s' q) = map_option class_number (h q)"
    by auto
  from s'(2) have "comms_get_class_by_number s' n =
      Some (Inr (find (\<lambda>p. map_option class_number (heap s' p) = Some n) (rev ps)))"
    by (simp add: comms_get_class_by_number_def get_class_loop_class_list)
  with s'(1,3) show ?thesis by simp
qed

theorem lookup_most_recent_witness:
  "(\<exists>s'. comms_register_classes
           \<lparr>class_head = None,
            heap = [1 \<mapsto> \<lparr>class_number = 5, name = Some ''old'',
                          command_verbs = Some [\<lparr>verb_name = None, verb_number = 0, handler = None\<rparr>],
                          command_handler = Some 30, next_class = None\<rparr>,
                    2 \<mapsto> \<lparr>class_number = 7, name = Some ''other'',
                          command_verbs = Some [\<lparr>verb_name = None, verb_number = 0, handler = None\<rparr>],
                          command_handler = Some 31, next_class = None\<rparr>,
                    3 \<mapsto> \<lparr>class_number = 5, name = Some ''new'',
                          command_verbs = Some [\<lparr>verb_name = None, verb_number = 0, handler = None\<rparr>],
                          command_handler = Some 32, next_class = None\<rparr>]\<rparr>
           [1, 2, 3] = Inr s'
        \<and> comms_get_class_by_number s' 5 = Some (Inr (Some 3)))
   \<and> (\<exists>s'. comms_register_classes
           \<lparr>class_head = None,
            heap = [1 \<mapsto> \<lparr>class_number = 5, name = Some ''old'',
                          command_verbs = Some [\<lparr>verb_name = None, verb_number = 0, handler = None\<rparr>],
                          command_handler = Some 30, next_class = None\<rparr>,
                    2 \<mapsto> \<lparr>class_number = 7, name = Some ''other'',
                          command_verbs = Some [\<lparr>verb_name = None, verb_number = 0, handler = None\<rparr>],
                          command_handler = Some 31, next_class = None\<rparr>,
                    3 \<mapsto> \<lparr>class_number = 5, name = Some ''new'',
                          command_verbs = Some [\<lparr>verb_name = None, verb_number = 0, handler = None\<rparr>],
                          command_handler = Some 32, next_class = None\<rparr>]\<rparr>
           [1, 2, 3] = Inr s'
        \<and> comms_get_class_by_number s' 99 = Some (Inr None))"
  using lookup_most_recent
    [of "[1, 2, 3]"
        "[1 \<mapsto> \<lparr>class_number = 5, name = Some ''old'',
                          command_verbs = Some [\<lparr>verb_name = None, verb_number = 0, handler = None\<rparr>],
                          command_handler = Some 30, next_class = None\<rparr>,
                    2 \<mapsto> \<lparr>class_number = 7, name = Some ''other'',
                          command_verbs = Some [\<lparr>verb_name = None, verb_number = 0, handler = None\<rparr>],
                          command_handler = Some 31, next_class = None\<rparr>,
                    3 \<mapsto> \<lparr>class_number = 5, name = Some ''new'',
                          command_verbs = Some [\<lparr>verb_name = None, verb_number = 0, handler = None\<rparr>],
                          command_handler = Some 32, next_class = None\<rparr>]"
        5]
    lookup_most_recent
    [of "[1, 2, 3]"
        "[1 \<mapsto> \<lparr>class_number = 5, name = Some ''old'',
                          command_verbs = Some [\<lparr>verb_name = None, verb_number = 0, handler = None\<rparr>],
                          command_handler = Some 30, next_class = None\<rparr>,
                    2 \<mapsto> \<lparr>class_number = 7, name = Some ''other'',
                          command_verbs = Some [\<lparr>verb_name = None, verb_number = 0, handler = None\<rparr>],
                          command_handler = Some 31, next_class = None\<rparr>,
                    3 \<mapsto> \<lparr>class_number = 5, name = Some ''new'',
                          command_verbs = Some [\<lparr>verb_name = None, verb_number = 0, handler = None\<rparr>],
                          command_handler = Some 32, next_class = None\<rparr>]"
        99]
  by simp

text \<open>
  Without the condition of single registration the property fails. The boot sequence
  that registers class 1 (number 5), class 2 (number 7) and class 2 again leaves class 2
  linked to itself. The lookup of number 5, which the registered class 1 bears, does not
  return, and neither does the lookup of number 99, which no registered class bears.
\<close>

theorem lookup_reregistered_counterexample:
  "comms_register_classes
     \<lparr>class_head = None,
      heap = [1 \<mapsto> \<lparr>class_number = 5, name = Some ''first'',
                    command_verbs = Some [\<lparr>verb_name = None, verb_number = 0, handler = None\<rparr>],
                    command_handler = Some 30, next_class = None\<rparr>,
              2 \<mapsto> \<lparr>class_number = 7, name = Some ''second'',
                    command_verbs = Some [\<lparr>verb_name = None, verb_number = 0, handler = None\<rparr>],
                    command_handler = Some 31, next_class = None\<rparr>]\<rparr>
     [1, 2, 2]
   = Inr \<lparr>class_head = Some 2,
          heap = [1 \<mapsto> \<lparr>class_number = 5, name = Some ''first'',
                    command_verbs = Some [\<lparr>verb_name = None, verb_number = 0, handler = None\<rparr>],
                    command_handler = Some 30, next_class = None\<rparr>,
                  2 \<mapsto> \<lparr>class_number = 7, name = Some ''second'',
                    command_verbs = Some [\<lparr>verb_name = None, verb_number = 0, handler = None\<rparr>],
                    command_handler = Some 31, next_class = Some 2\<rparr>]\<rparr>
   \<and> comms_get_class_by_number
     \<lparr>class_head = Some 2,
      heap = [1 \<mapsto> \<lparr>class_number = 5, name = Some ''first'',
                    command_verbs = Some [\<lparr>verb_name = None, verb_number = 0, handler = None\<rparr>],
                    command_handler = Some 30, next_class = None\<rparr>,
              2 \<mapsto> \<lparr>class_number = 7, name = Some ''second'',
                    command_verbs = Some [\<lparr>verb_name = None, verb_number = 0, handler = None\<rparr>],
                    command_handler = Some 31, next_class = Some 2\<rparr>]\<rparr>
     5
   = None
   \<and> comms_get_class_by_number
     \<lparr>class_head = Some 2,
      heap = [1 \<mapsto> \<lparr>class_number = 5, name = Some ''first'',
                    command_verbs = Some [\<lparr>verb_name = None, verb_number = 0, handler = None\<rparr>],
                    command_handler = Some 30, next_class = None\<rparr>,
              2 \<mapsto> \<lparr>class_number = 7, name = Some ''second'',
                    command_verbs = Some [\<lparr>verb_name = None, verb_number = 0, handler = None\<rparr>],
                    command_handler = Some 31, next_class = Some 2\<rparr>]\<rparr>
     99
   = None"
proof -
  have cyc: "comms_get_class_by_number_loop
     [1 \<mapsto> \<lparr>class_number = 5, name = Some ''first'',
                    command_verbs = Some [\<lparr>verb_name = None, verb_number = 0, handler = None\<rparr>],
                    command_handler = Some 30, next_class = None\<rparr>,
      2 \<mapsto> \<lparr>class_number = 7, name = Some ''second'',
                    command_verbs = Some [\<lparr>verb_name = None, verb_number = 0, handler = None\<rparr>],
                    command_handler = Some 31, next_class = Some 2\<rparr>]
     n (Some 2) = None" if "n \<noteq> 7" for n
    using that
    by (intro get_class_loop_cycle
        [where c = "\<lparr>class_number = 7, name = Some ''second'',
                    command_verbs = Some [\<lparr>verb_name = None, verb_number = 0, handler = None\<rparr>],
                    command_handler = Some 31, next_class = Some 2\<rparr>"])
      simp_all
  have reg: "comms_register_classes
     \<lparr>class_head = None,
      heap = [1 \<mapsto> \<lparr>class_number = 5, name = Some ''first'',
                    command_verbs = Some [\<lparr>verb_name = None, verb_number = 0, handler = None\<rparr>],
                    command_handler = Some 30, next_class = None\<rparr>,
              2 \<mapsto> \<lparr>class_number = 7, name = Some ''second'',
                    command_verbs = Some [\<lparr>verb_name = None, verb_number = 0, handler = None\<rparr>],
                    command_handler = Some 31, next_class = None\<rparr>]\<rparr>
     [1, 2, 2]
   = Inr \<lparr>class_head = Some 2,
          heap = [1 \<mapsto> \<lparr>class_number = 5, name = Some ''first'',
                    command_verbs = Some [\<lparr>verb_name = None, verb_number = 0, handler = None\<rparr>],
                    command_handler = Some 30, next_class = None\<rparr>,
                  2 \<mapsto> \<lparr>class_number = 7, name = Some ''second'',
                    command_verbs = Some [\<lparr>verb_name = None, verb_number = 0, handler = None\<rparr>],
                    command_handler = Some 31, next_class = Some 2\<rparr>]\<rparr>"
    by (simp add: comms_register_class_def comms_class_requires_verb_assignment_def
        comms_auto_assign_verb_numbers_def fun_eq_iff)
  from reg cyc [of 5] cyc [of 99] show ?thesis
    by (simp add: comms_get_class_by_number_def)
qed

section \<open>Dispatch\<close>

text \<open>
  C6. The class resolved for the transaction has a catch-all handler, and its verb table
  has an entry with the transaction's verb number; \<open>v\<close> is the first one in declared
  order. Then \<^verbatim>\<open>comms_backend_submit_command\<close> makes one call, through the handler of
  \<open>v\<close>, and none through the catch-all handler; it returns that handler's code, after
  the success-override step.
\<close>

theorem submit_verb_precedence:
  assumes "comms_get_class_by_number s (trans_class_number tr) = Some (Inr (Some p))"
    and "heap s p = Some c"
    and "command_verbs c = Some (es @ v # rest)"
    and "\<forall>e\<in>set es. handler e \<noteq> None \<and> verb_number e \<noteq> verb tr"
    and "handler v = Some h"
    and "verb_number v = verb tr"
    and "command_handler c = Some ch"
  shows "comms_backend_submit_command hs okay s tr =
           Some (Inr \<lparr>rc = (if fst (hs h tr) = 0 \<and> \<not> okay (snd (hs h tr))
                            then EBADMSG else fst (hs h tr)),
                      transaction = snd (hs h tr),
                      calls = [VerbCall h]\<rparr>)"
proof -
  have "find_verb (verb tr) (es @ v # rest) = Inr (Some (v, h))"
    using assms by (intro find_verb_match) auto
  with assms show ?thesis
    by (simp add: comms_backend_submit_command_def submit_to_class_def)
qed

theorem submit_verb_precedence_witness:
  "comms_backend_submit_command (\<lambda>h t. (int h, t\<lparr>payload := h\<rparr>)) (\<lambda>t. True)
     \<lparr>class_head = Some 2,
      heap = [2 \<mapsto> \<lparr>class_number = 7, name = None,
                    command_verbs = Some
                      [\<lparr>verb_name = Some ''W'', verb_number = 1, handler = Some 20\<rparr>,
                       \<lparr>verb_name = Some ''X'', verb_number = 3, handler = Some 21\<rparr>,
                       \<lparr>verb_name = Some ''Y'', verb_number = 3, handler = Some 22\<rparr>,
                       \<lparr>verb_name = None, verb_number = 0, handler = None\<rparr>],
                    command_handler = Some 30, next_class = None\<rparr>]\<rparr>
     \<lparr>trans_class_number = 7, verb = 3, payload = 0\<rparr>
   = Some (Inr \<lparr>rc = 21,
                transaction = \<lparr>trans_class_number = 7, verb = 3, payload = 21\<rparr>,
                calls = [VerbCall 21]\<rparr>)"
  using submit_verb_precedence
    [of "\<lparr>class_head = Some 2,
      heap = [2 \<mapsto> \<lparr>class_number = 7, name = None,
                    command_verbs = Some
                      [\<lparr>verb_name = Some ''W'', verb_number = 1, handler = Some 20\<rparr>,
                       \<lparr>verb_name = Some ''X'', verb_number = 3, handler = Some 21\<rparr>,
                       \<lparr>verb_name = Some ''Y'', verb_number = 3, handler = Some 22\<rparr>,
                       \<lparr>verb_name = None, verb_number = 0, handler = None\<rparr>],
                    command_handler = Some 30, next_class = None\<rparr>]\<rparr>"
        "\<lparr>trans_class_number = 7, verb = 3, payload = 0\<rparr>"
        2
        "\<lparr>class_number = 7, name = None,
                    command_verbs = Some
                      [\<lparr>verb_name = Some ''W'', verb_number = 1, handler = Some 20\<rparr>,
                       \<lparr>verb_name = Some ''X'', verb_number = 3, handler = Some 21\<rparr>,
                       \<lparr>verb_name = Some ''Y'', verb_number = 3, handler = Some 22\<rparr>,
                       \<lparr>verb_name = None, verb_number = 0, handler = None\<rparr>],
                    command_handler = Some 30, next_class = None\<rparr>"
        "[\<lparr>verb_name = Some ''W'', verb_number = 1, handler = Some 20\<rparr>]"
        "\<lparr>verb_name = Some ''X'', verb_number = 3, handler = Some 21\<rparr>"
        "[\<lparr>verb_name = Some ''Y'', verb_number = 3, handler = Some 22\<rparr>,
          \<lparr>verb_name = None, verb_number = 0, handler = None\<rparr>]"
        21 30
        "\<lambda>h t. (int h, t\<lparr>payload := h\<rparr>)" "\<lambda>t. True"]
  by (simp add: comms_get_class_by_number_def get_class_loop_Some)


text \<open>
  C7. The class resolved for the transaction has a terminated verb table in which no verb
  has the transaction's verb number, and a catch-all handler. Then
  \<^verbatim>\<open>comms_backend_submit_command\<close> makes one call, through the catch-all handler, with
  the transaction, and returns that handler's code, after the success-override step.
\<close>

theorem submit_fallback:
  assumes "comms_get_class_by_number s (trans_class_number tr) = Some (Inr (Some p))"
    and "heap s p = Some c"
    and "command_verbs c = Some (es @ t # rest)"
    and "\<forall>e\<in>set es. handler e \<noteq> None \<and> verb_number e \<noteq> verb tr"
    and "handler t = None"
    and "command_handler c = Some ch"
  shows "comms_backend_submit_command hs okay s tr =
           Some (Inr \<lparr>rc = (if fst (hs ch tr) = 0 \<and> \<not> okay (snd (hs ch tr))
                            then EBADMSG else fst (hs ch tr)),
                      transaction = snd (hs ch tr),
                      calls = [ClassCall ch]\<rparr>)"
proof -
  have "find_verb (verb tr) (es @ t # rest) = Inr None"
    using assms by (intro find_verb_no_match) auto
  with assms show ?thesis
    by (simp add: comms_backend_submit_command_def submit_to_class_def)
qed

theorem submit_fallback_witness:
  "comms_backend_submit_command (\<lambda>h t. (int h, t\<lparr>payload := h\<rparr>)) (\<lambda>t. True)
     \<lparr>class_head = Some 2,
      heap = [2 \<mapsto> \<lparr>class_number = 7, name = None,
                    command_verbs = Some
                      [\<lparr>verb_name = Some ''X'', verb_number = 3, handler = Some 21\<rparr>,
                       \<lparr>verb_name = None, verb_number = 0, handler = None\<rparr>],
                    command_handler = Some 30, next_class = None\<rparr>]\<rparr>
     \<lparr>trans_class_number = 7, verb = 9, payload = 0\<rparr>
   = Some (Inr \<lparr>rc = 30,
                transaction = \<lparr>trans_class_number = 7, verb = 9, payload = 30\<rparr>,
                calls = [ClassCall 30]\<rparr>)"
  using submit_fallback
    [of "\<lparr>class_head = Some 2,
      heap = [2 \<mapsto> \<lparr>class_number = 7, name = None,
                    command_verbs = Some
                      [\<lparr>verb_name = Some ''X'', verb_number = 3, handler = Some 21\<rparr>,
                       \<lparr>verb_name = None, verb_number = 0, handler = None\<rparr>],
                    command_handler = Some 30, next_class = None\<rparr>]\<rparr>"
        "\<lparr>trans_class_number = 7, verb = 9, payload = 0\<rparr>"
        2
        "\<lparr>class_number = 7, name = None,
                    command_verbs = Some
                      [\<lparr>verb_name = Some ''X'', verb_number = 3, handler = Some 21\<rparr>,
                       \<lparr>verb_name = None, verb_number = 0, handler = None\<rparr>],
                    command_handler = Some 30, next_class = None\<rparr>"
        "[\<lparr>verb_name = Some ''X'', verb_number = 3, handler = Some 21\<rparr>]"
        "\<lparr>verb_name = None, verb_number = 0, handler = None\<rparr>"
        "[]"
        30
        "\<lambda>h t. (int h, t\<lparr>payload := h\<rparr>)" "\<lambda>t. True"]
  by (simp add: comms_get_class_by_number_def get_class_loop_Some)

text \<open>
  C8. The class resolved for the transaction has no catch-all handler, and its verb table
  is absent, or terminated with no verb that has the transaction's verb number. Then
  \<^verbatim>\<open>comms_backend_submit_command\<close> returns the invalid-argument status, which is not the
  success code, and calls no handler; the transaction is as it was.
\<close>

theorem submit_unhandled:
  assumes "comms_get_class_by_number s (trans_class_number tr) = Some (Inr (Some p))"
    and "heap s p = Some c"
    and "command_handler c = None"
    and "command_verbs c = None \<or>
         (\<exists>es t rest. command_verbs c = Some (es @ t # rest) \<and>
            (\<forall>e\<in>set es. handler e \<noteq> None \<and> verb_number e \<noteq> verb tr) \<and> handler t = None)"
  shows "comms_backend_submit_command hs okay s tr =
           Some (Inr \<lparr>rc = EINVAL, transaction = tr, calls = []\<rparr>) \<and> EINVAL \<noteq> 0"
proof (cases "command_verbs c")
  case None
  with assms show ?thesis
    by (simp add: comms_backend_submit_command_def submit_to_class_def EINVAL_def)
next
  case (Some vs)
  with assms(4) obtain es t rest where vs: "vs = es @ t # rest"
    and es: "\<forall>e\<in>set es. handler e \<noteq> None \<and> verb_number e \<noteq> verb tr"
    and t: "handler t = None"
    by auto
  have "find_verb (verb tr) (es @ t # rest) = Inr None"
    using es t by (intro find_verb_no_match) auto
  with assms(1-3) Some vs show ?thesis
    by (simp add: comms_backend_submit_command_def submit_to_class_def EINVAL_def)
qed

theorem submit_unhandled_witness:
  "comms_backend_submit_command (\<lambda>h t. (0, t\<lparr>payload := h\<rparr>)) (\<lambda>t. True)
     \<lparr>class_head = Some 2,
      heap = [2 \<mapsto> \<lparr>class_number = 7, name = None,
                    command_verbs = Some
                      ([\<lparr>verb_name = Some ''X'', verb_number = 3, handler = Some 21\<rparr>]
                       @ \<lparr>verb_name = None, verb_number = 0, handler = None\<rparr> # []),
                    command_handler = None, next_class = None\<rparr>]\<rparr>
     \<lparr>trans_class_number = 7, verb = 9, payload = 0\<rparr>
   = Some (Inr \<lparr>rc = EINVAL,
                transaction = \<lparr>trans_class_number = 7, verb = 9, payload = 0\<rparr>,
                calls = []\<rparr>)"
proof -
  have "\<exists>es t rest.
          Some ([\<lparr>verb_name = Some ''X'', verb_number = 3, handler = Some 21\<rparr>]
                @ \<lparr>verb_name = None, verb_number = 0, handler = None\<rparr> # [])
            = Some (es @ t # rest) \<and>
          (\<forall>e\<in>set es. handler e \<noteq> None \<and> verb_number e \<noteq> (9 :: u32)) \<and> handler t = None"
    by (intro exI [of _ "[\<lparr>verb_name = Some ''X'', verb_number = 3, handler = Some 21\<rparr>]"]
        exI [of _ "\<lparr>verb_name = None, verb_number = 0, handler = None\<rparr>"]
        exI [of _ "[]"]) simp
  then show ?thesis
    using submit_unhandled
      [of "\<lparr>class_head = Some 2,
        heap = [2 \<mapsto> \<lparr>class_number = 7, name = None,
                      command_verbs = Some
                        ([\<lparr>verb_name = Some ''X'', verb_number = 3, handler = Some 21\<rparr>]
                         @ \<lparr>verb_name = None, verb_number = 0, handler = None\<rparr> # []),
                      command_handler = None, next_class = None\<rparr>]\<rparr>"
          "\<lparr>trans_class_number = 7, verb = 9, payload = 0\<rparr>"
          2
          "\<lparr>class_number = 7, name = None,
                      command_verbs = Some
                        ([\<lparr>verb_name = Some ''X'', verb_number = 3, handler = Some 21\<rparr>]
                         @ \<lparr>verb_name = None, verb_number = 0, handler = None\<rparr> # []),
                      command_handler = None, next_class = None\<rparr>"
          "\<lambda>h t. (0, t\<lparr>payload := h\<rparr>)" "\<lambda>t. True"]
    by (simp add: comms_get_class_by_number_def get_class_loop_Some)
qed

text \<open>
  C9. Whenever \<^verbatim>\<open>comms_backend_submit_command\<close> returns after it has called a handler:
  if the handler returned 0 and \<^verbatim>\<open>comms_transaction_okay\<close> fails on the transaction
  as the handler left it, the result is the bad-message status, which is not the success
  code; if the handler returned 0 and the predicate holds, the result is 0; and a code
  other than 0 is returned as the handler gave it, whatever the predicate says.
\<close>

theorem submit_success_override:
  assumes "comms_backend_submit_command hs okay s tr = Some (Inr out)"
    and "calls out = [cl]"
  shows "transaction out = snd (hs (call_handler cl) tr)
       \<and> (fst (hs (call_handler cl) tr) = 0 \<and> \<not> okay (transaction out) \<longrightarrow> rc out = EBADMSG)
       \<and> (fst (hs (call_handler cl) tr) = 0 \<and> okay (transaction out) \<longrightarrow> rc out = 0)
       \<and> (fst (hs (call_handler cl) tr) \<noteq> 0 \<longrightarrow> rc out = fst (hs (call_handler cl) tr))
       \<and> EBADMSG \<noteq> 0"
  using assms
  by (auto simp: comms_backend_submit_command_def submit_to_class_def EBADMSG_def
      split: option.splits sum.splits if_splits prod.splits)


theorem submit_success_override_witness:
  "comms_backend_submit_command (\<lambda>h t. (if h = (21 :: nat) then (0 :: int) else 5, t\<lparr>payload := h\<rparr>)) (\<lambda>t. payload t = 0)
     \<lparr>class_head = Some 2,
      heap = [2 \<mapsto> \<lparr>class_number = 7, name = None,
                    command_verbs = Some
                      [\<lparr>verb_name = Some ''X'', verb_number = 3, handler = Some 21\<rparr>,
                       \<lparr>verb_name = None, verb_number = 0, handler = None\<rparr>],
                    command_handler = Some 30, next_class = None\<rparr>]\<rparr>
     \<lparr>trans_class_number = 7, verb = 3, payload = (0 :: nat)\<rparr>
   = Some (Inr \<lparr>rc = EBADMSG, transaction = \<lparr>trans_class_number = 7, verb = 3, payload = (21 :: nat)\<rparr>,
            calls = [VerbCall 21]\<rparr>)
   \<and> fst ((\<lambda>h t. (if h = (21 :: nat) then (0 :: int) else 5, t\<lparr>payload := h\<rparr>)) 21 \<lparr>trans_class_number = 7, verb = 3, payload = (0 :: nat)\<rparr>) = 0
   \<and> \<not> (\<lambda>t. payload t = 0) (transaction \<lparr>rc = EBADMSG, transaction = \<lparr>trans_class_number = 7, verb = 3, payload = (21 :: nat)\<rparr>,
            calls = [VerbCall 21]\<rparr>)
   \<and> rc \<lparr>rc = EBADMSG, transaction = \<lparr>trans_class_number = 7, verb = 3, payload = (21 :: nat)\<rparr>,
            calls = [VerbCall 21]\<rparr> = EBADMSG
   \<and> EBADMSG \<noteq> 0
   \<and> comms_backend_submit_command (\<lambda>h t. (if h = (21 :: nat) then (0 :: int) else 5, t\<lparr>payload := h\<rparr>)) (\<lambda>t. payload t = 0)
     \<lparr>class_head = Some 2,
      heap = [2 \<mapsto> \<lparr>class_number = 7, name = None,
                    command_verbs = Some
                      [\<lparr>verb_name = Some ''X'', verb_number = 3, handler = Some 21\<rparr>,
                       \<lparr>verb_name = None, verb_number = 0, handler = None\<rparr>],
                    command_handler = Some 30, next_class = None\<rparr>]\<rparr>
     \<lparr>trans_class_number = 7, verb = 9, payload = (0 :: nat)\<rparr>
   = Some (Inr \<lparr>rc = 5, transaction = \<lparr>trans_class_number = 7, verb = 9, payload = (30 :: nat)\<rparr>,
            calls = [ClassCall 30]\<rparr>)
   \<and> fst ((\<lambda>h t. (if h = (21 :: nat) then (0 :: int) else 5, t\<lparr>payload := h\<rparr>)) 30 \<lparr>trans_class_number = 7, verb = 9, payload = (0 :: nat)\<rparr>) = 5
   \<and> \<not> (\<lambda>t. payload t = 0) (transaction \<lparr>rc = 5, transaction = \<lparr>trans_class_number = 7, verb = 9, payload = (30 :: nat)\<rparr>,
            calls = [ClassCall 30]\<rparr>)
   \<and> rc \<lparr>rc = 5, transaction = \<lparr>trans_class_number = 7, verb = 9, payload = (30 :: nat)\<rparr>,
            calls = [ClassCall 30]\<rparr> = 5"
proof -
  have a: "comms_backend_submit_command (\<lambda>h t. (if h = (21 :: nat) then (0 :: int) else 5, t\<lparr>payload := h\<rparr>)) (\<lambda>t. payload t = 0)
     \<lparr>class_head = Some 2,
      heap = [2 \<mapsto> \<lparr>class_number = 7, name = None,
                    command_verbs = Some
                      [\<lparr>verb_name = Some ''X'', verb_number = 3, handler = Some 21\<rparr>,
                       \<lparr>verb_name = None, verb_number = 0, handler = None\<rparr>],
                    command_handler = Some 30, next_class = None\<rparr>]\<rparr>
     \<lparr>trans_class_number = 7, verb = 3, payload = (0 :: nat)\<rparr>
   = Some (Inr \<lparr>rc = EBADMSG, transaction = \<lparr>trans_class_number = 7, verb = 3, payload = (21 :: nat)\<rparr>,
            calls = [VerbCall 21]\<rparr>)"
    by (simp add: comms_backend_submit_command_def comms_get_class_by_number_def
        get_class_loop_Some submit_to_class_def)
  have b: "comms_backend_submit_command (\<lambda>h t. (if h = (21 :: nat) then (0 :: int) else 5, t\<lparr>payload := h\<rparr>)) (\<lambda>t. payload t = 0)
     \<lparr>class_head = Some 2,
      heap = [2 \<mapsto> \<lparr>class_number = 7, name = None,
                    command_verbs = Some
                      [\<lparr>verb_name = Some ''X'', verb_number = 3, handler = Some 21\<rparr>,
                       \<lparr>verb_name = None, verb_number = 0, handler = None\<rparr>],
                    command_handler = Some 30, next_class = None\<rparr>]\<rparr>
     \<lparr>trans_class_number = 7, verb = 9, payload = (0 :: nat)\<rparr>
   = Some (Inr \<lparr>rc = 5, transaction = \<lparr>trans_class_number = 7, verb = 9, payload = (30 :: nat)\<rparr>,
            calls = [ClassCall 30]\<rparr>)"
    by (simp add: comms_backend_submit_command_def comms_get_class_by_number_def
        get_class_loop_Some submit_to_class_def)
  show ?thesis
    using a b
      submit_success_override [OF a, of "VerbCall 21"]
      submit_success_override [OF b, of "ClassCall 30"]
    by simp
qed

section \<open>Defects\<close>

text \<open>
  C1. A class with a catch-all handler and no verb table (\<^verbatim>\<open>command_verbs\<close> is
  \<^verbatim>\<open>NULL\<close>) is meant to be registered and dispatched to. In the code,
  \<^verbatim>\<open>comms_register_class\<close> reads \<^verbatim>\<open>verb->handler\<close> through the null table in
  \<^verbatim>\<open>comms_class_requires_verb_assignment\<close>; and for such a class in the list,
  \<^verbatim>\<open>comms_backend_submit_command\<close> passes its guard (the class has a handler) and reads
  through the null table in its scan. Both are dereferences of \<^verbatim>\<open>NULL\<close>.
\<close>

theorem handler_only_class_faults:
  "comms_register_class
     \<lparr>class_head = None,
      heap = [1 \<mapsto> \<lparr>class_number = 5, name = Some ''core'', command_verbs = None,
                    command_handler = Some 30, next_class = None\<rparr>]\<rparr>
     (Some 1)
   = Inl NullPointer
   \<and> comms_backend_submit_command (\<lambda>h t. (0, t)) (\<lambda>t. True)
     \<lparr>class_head = Some 1,
      heap = [1 \<mapsto> \<lparr>class_number = 5, name = Some ''core'', command_verbs = None,
                    command_handler = Some 30, next_class = None\<rparr>]\<rparr>
     \<lparr>trans_class_number = 5, verb = 0, payload = ()\<rparr>
   = Some (Inl NullPointer)"
  by (simp add: comms_register_class_def comms_class_requires_verb_assignment_def
      comms_backend_submit_command_def comms_get_class_by_number_def get_class_loop_Some
      submit_to_class_def)

text \<open>
  C2. For a class number that no registered class bears, \<^verbatim>\<open>comms_get_handler_name\<close> is
  meant to return \<^verbatim>\<open>default_string\<close>. In the code no verb object is found, and the
  next statement reads \<^verbatim>\<open>handling_class->command_handler\<close> with \<^verbatim>\<open>handling_class\<close>
  equal to \<^verbatim>\<open>NULL\<close>. On the empty registry:
\<close>

theorem handler_name_unknown_class_faults:
  "comms_get_handler_name \<lparr>class_head = None, heap = Map.empty\<rparr> 99 0
     (Some ''class handler'') (Some ''unknown'')
   = Some (Inl NullPointer)"
  by (simp add: comms_get_handler_name_def comms_get_object_for_verb_def
      comms_get_class_by_number_def get_class_loop_None)

end
